theory Spec2Isabelle
  imports Complex_Main
begin

section \<open>Python strings\<close>

text \<open>
  A Python \<^verbatim>\<open>str\<close> is a sequence of Unicode code points, and \<^verbatim>\<open>len\<close> counts code
  points.  The templated drafts of \<^verbatim>\<open>main.py\<close> contain emoji, which do not fit HOL's
  8-bit \<^typ>\<open>char\<close>, so a string is modelled as the list of its code points.  ASCII literals
  of the source are written \<open>ascii ''...''\<close>.
\<close>

type_synonym pystr = "nat list"

definition ascii :: "string \<Rightarrow> pystr" where
  "ascii s = map of_char s"

text \<open>
  \<^verbatim>\<open>str.upper()\<close>: the case mapping of the ASCII letters.  The source only ever tests
  the result for the presence of the literal \<^verbatim>\<open>APPROVED\<close>, and no code point outside ASCII
  is mapped by Python to one of its letters next to another, so other code points are
  left as they are.
\<close>

definition upper_cp :: "nat \<Rightarrow> nat" where
  "upper_cp c = (if 97 \<le> c \<and> c \<le> 122 then c - 32 else c)"

definition py_upper :: "pystr \<Rightarrow> pystr" where
  "py_upper s = map upper_cp s"

text \<open>
  \<^verbatim>\<open>str.lower()\<close>: the ASCII capitals, and the two code points outside ASCII whose
  lower case contains an ASCII letter: 8490, the Kelvin sign, becomes \<open>k\<close> (107), and
  304, the capital I with dot above, becomes \<open>i\<close> (105) followed by the combining dot
  775.  Every other code point outside ASCII becomes one code point outside ASCII, which
  the tests of the source against ASCII phrases cannot tell from the code point itself,
  so it is left as it is.
\<close>

definition lower_cp :: "nat \<Rightarrow> nat list" where
  "lower_cp c =
     (if 65 \<le> c \<and> c \<le> 90 then [c + 32]
      else if c = 8490 then [107]
      else if c = 304 then [105, 775]
      else [c])"

definition py_lower :: "pystr \<Rightarrow> pystr" where
  "py_lower s = concat (map lower_cp s)"

text \<open>\<^verbatim>\<open>str.strip()\<close> removes leading and trailing code points for which \<^verbatim>\<open>str.isspace\<close> holds.\<close>

definition py_isspace :: "nat \<Rightarrow> bool" where
  "py_isspace c \<longleftrightarrow>
     (9 \<le> c \<and> c \<le> 13) \<or> (28 \<le> c \<and> c \<le> 32) \<or> c = 133 \<or> c = 160 \<or> c = 5760 \<or>
     (8192 \<le> c \<and> c \<le> 8202) \<or> c = 8232 \<or> c = 8233 \<or> c = 8239 \<or> c = 8287 \<or> c = 12288"

definition py_strip :: "pystr \<Rightarrow> pystr" where
  "py_strip s = rev (dropWhile py_isspace (rev (dropWhile py_isspace s)))"

text \<open>The substring test \<^verbatim>\<open>sub in s\<close>.\<close>

fun startswith :: "pystr \<Rightarrow> pystr \<Rightarrow> bool" where
  "startswith s [] = True"
| "startswith [] (p # ps) = False"
| "startswith (c # cs) (p # ps) = (c = p \<and> startswith cs ps)"

fun py_in :: "pystr \<Rightarrow> pystr \<Rightarrow> bool" where
  "py_in sub [] = (sub = [])"
| "py_in sub (c # cs) = (startswith (c # cs) sub \<or> py_in sub cs)"

section \<open>The shared workflow state\<close>

text \<open>One entry of \<^verbatim>\<open>agent_execution_log\<close>, as built by \<^verbatim>\<open>log_agent_action\<close>.\<close>

record log_entry =
  timestamp :: pystr
  agent :: pystr
  action :: pystr
  result_length :: nat
  status :: pystr
  iteration :: int

text \<open>\<^verbatim>\<open>CreativeWorkflowState\<close>.  Python integers are unbounded, so the counters are \<^typ>\<open>int\<close>.\<close>

record state =
  user_prompt :: pystr
  draft_text :: pystr
  review_feedback :: "pystr list"
  final_approved_text :: "pystr option"
  image_url :: pystr
  retries :: int
  current_iteration :: int
  workflow_start_time :: real
  agent_execution_log :: "log_entry list"
  compliance_flags :: "pystr list"
  is_approved :: bool

text \<open>
  A node returns a dictionary holding only the keys it updates.  \<open>None\<close> in a field of
  \<open>update\<close> means that the key is absent from the returned dictionary.
\<close>

record update =
  u_draft_text :: "pystr option"
  u_review_feedback :: "pystr list option"
  u_final_approved_text :: "pystr option option"
  u_image_url :: "pystr option"
  u_retries :: "int option"
  u_current_iteration :: "int option"
  u_agent_execution_log :: "log_entry list option"
  u_compliance_flags :: "pystr list option"
  u_is_approved :: "bool option"

definition no_update :: update where
  "no_update = \<lparr> u_draft_text = None, u_review_feedback = None, u_final_approved_text = None,
     u_image_url = None, u_retries = None, u_current_iteration = None,
     u_agent_execution_log = None, u_compliance_flags = None, u_is_approved = None \<rparr>"

text \<open>
  The state schema declares no reducers, so the graph merges an update into the state by
  overwriting every key that the update holds.
\<close>

definition merge :: "state \<Rightarrow> update \<Rightarrow> state" where
  "merge s u = s\<lparr>
     draft_text := (case u_draft_text u of None \<Rightarrow> draft_text s | Some v \<Rightarrow> v),
     review_feedback := (case u_review_feedback u of None \<Rightarrow> review_feedback s | Some v \<Rightarrow> v),
     final_approved_text :=
       (case u_final_approved_text u of None \<Rightarrow> final_approved_text s | Some v \<Rightarrow> v),
     image_url := (case u_image_url u of None \<Rightarrow> image_url s | Some v \<Rightarrow> v),
     retries := (case u_retries u of None \<Rightarrow> retries s | Some v \<Rightarrow> v),
     current_iteration :=
       (case u_current_iteration u of None \<Rightarrow> current_iteration s | Some v \<Rightarrow> v),
     agent_execution_log :=
       (case u_agent_execution_log u of None \<Rightarrow> agent_execution_log s | Some v \<Rightarrow> v),
     compliance_flags :=
       (case u_compliance_flags u of None \<Rightarrow> compliance_flags s | Some v \<Rightarrow> v),
     is_approved := (case u_is_approved u of None \<Rightarrow> is_approved s | Some v \<Rightarrow> v) \<rparr>"

section \<open>The external services\<close>

text \<open>
  A call of a language model either returns the content of its response or raises.  A
  client that was never initialised (\<^verbatim>\<open>writer_llm is None\<close>) raises inside the same
  \<^verbatim>\<open>try\<close> block, so it is the \<open>LLMError\<close> case as well.
\<close>

datatype llm_result = Content pystr | LLMError

text \<open>
  The image client either saves a file, whose name carries the decimal digits of
  \<^verbatim>\<open>int(time.time())\<close>, or raises an exception with a message.
\<close>

datatype hf_result = Saved pystr | HfError pystr

text \<open>
  Everything the run takes from outside.  The language models are sampled, so a reply
  is a function of the number of the call and of the user message: \<open>writer_llm\<close> is
  indexed by \<open>retries\<close> (the number of drafts written so far), \<open>reviewer_llm\<close> by the
  length of \<open>review_feedback\<close> (the number of reviews so far).  \<open>now_iso\<close> gives
  \<^verbatim>\<open>datetime.now().isoformat()\<close> for the log entry with the given index; \<open>time_start\<close>
  and \<open>time_end\<close> are the two readings of \<^verbatim>\<open>time.time()\<close> in \<^verbatim>\<open>run_campaign_generator\<close>.
\<close>

record env =
  writer_llm :: "nat \<Rightarrow> pystr \<Rightarrow> llm_result"
  reviewer_llm :: "nat \<Rightarrow> pystr \<Rightarrow> llm_result"
  HF_CLIENT :: "(pystr \<Rightarrow> hf_result) option"
  now_iso :: "nat \<Rightarrow> pystr"
  time_start :: real
  time_end :: real

definition generate_image_with_hf :: "env \<Rightarrow> pystr \<Rightarrow> pystr" where
  "generate_image_with_hf e prompt =
     (case HF_CLIENT e of
        None \<Rightarrow> ascii ''Simulated image URL (no API token provided)''
      | Some client \<Rightarrow>
          (case client prompt of
             Saved digits \<Rightarrow>
               ascii ''Generated: '' @ ascii ''campaign_output_'' @ digits @ ascii ''.png''
           | HfError msg \<Rightarrow>
               ascii ''[Image generation error: '' @ take 50 msg @ ascii ''...]''))"

section \<open>The agent nodes\<close>

definition log_agent_action :: "env \<Rightarrow> state \<Rightarrow> pystr \<Rightarrow> pystr \<Rightarrow> pystr \<Rightarrow> pystr \<Rightarrow> log_entry" where
  "log_agent_action e s agent_name act result stat =
     \<lparr> timestamp = now_iso e (length (agent_execution_log s)),
       agent = agent_name,
       action = act,
       result_length = length result,
       status = stat,
       iteration = current_iteration s \<rparr>"

subsection \<open>Writer\<close>

definition APPROVED :: pystr where
  "APPROVED = ascii ''APPROVED''"

text \<open>The user message of the writer; note that this test does not upper-case the feedback.\<close>

definition writer_user_message :: "state \<Rightarrow> pystr" where
  "writer_user_message s =
     (let product = user_prompt s;
          user_message = ascii ''Create an engaging social media ad for: '' @ product
      in if review_feedback s \<noteq> [] \<and> \<not> py_in APPROVED (last (review_feedback s))
         then user_message @ [10, 10] @ ascii ''Previous feedback: '' @ last (review_feedback s)
                @ [10] @ ascii ''Please revise accordingly.''
         else user_message)"

text \<open>
  The two templates of the \<^verbatim>\<open>except\<close> branch.  Code points: 127775 glowing star,
  128154 green heart, 10024 sparkles, 128640 rocket.
\<close>

definition fallback_draft :: "state \<Rightarrow> pystr" where
  "fallback_draft s =
     (let product_short = take 40 (user_prompt s)
      in if review_feedback s \<noteq> [] \<and> length (review_feedback s) > 0
         then [127775] @ ascii '' Discover '' @ product_short
                @ ascii ''! Eco-conscious. Quality crafted. Get yours now! '' @ [128154]
         else [10024] @ ascii '' NEW: '' @ product_short
                @ ascii ''! Perfect for the modern lifestyle. Shop today! '' @ [128640])"

definition writer_draft :: "env \<Rightarrow> state \<Rightarrow> pystr \<times> pystr" where
  "writer_draft e s =
     (case writer_llm e (nat (retries s)) (writer_user_message s) of
        Content c \<Rightarrow> (py_strip c, ascii ''SUCCESS'')
      | LLMError \<Rightarrow> (fallback_draft s, ascii ''FALLBACK''))"

definition writer_node :: "env \<Rightarrow> state \<Rightarrow> update" where
  "writer_node e s =
     (let iteration = current_iteration s + 1;
          retries = retries s;
          (draft, status) = writer_draft e s;
          log_entry = log_agent_action e s (ascii ''Writer'') (ascii ''copy_generation'') draft status
      in no_update\<lparr>
           u_draft_text := Some draft,
           u_current_iteration := Some iteration,
           u_retries := Some (retries + 1),
           u_agent_execution_log := Some (agent_execution_log s @ [log_entry]) \<rparr>)"

subsection \<open>Reviewer\<close>

definition banned_phrases :: "pystr list" where
  "banned_phrases = map ascii
     [''100%'', ''guarantee'', ''guaranteed'', ''miracle'', ''instant results'',
      ''best in the world'', ''never'', ''always works'', ''scientifically proven'',
      ''approved by'', ''clinically tested'']"

definition negative_words :: "pystr list" where
  "negative_words = map ascii [''toxic'', ''harmful'', ''dangerous'', ''problem'', ''issue'']"

text \<open>
  The rule-based checker of the \<^verbatim>\<open>except\<close> branch.  The loop over the banned phrases
  stops at the first phrase found; the three checks append to \<open>issues\<close> in order and the
  verdict is \<^verbatim>\<open>issues[0]\<close>, or the approval marker when \<open>issues\<close> is empty.
  \<open>claim_issue\<close> is the message built for a banned phrase (39 is the single quote).
\<close>

definition claim_issue :: "pystr \<Rightarrow> pystr" where
  "claim_issue phrase = ascii ''[CLAIM] Remove unverified claim: '' @ [39] @ phrase @ [39]"

definition fallback_issues :: "pystr \<Rightarrow> pystr list" where
  "fallback_issues draft =
     (let draft_lower = py_lower draft;
          issues1 = (case find (\<lambda>phrase. py_in phrase draft_lower) banned_phrases of
                       Some phrase \<Rightarrow> [claim_issue phrase]
                     | None \<Rightarrow> []);
          issues2 = (if list_ex (\<lambda>word. py_in word draft_lower) negative_words
                     then issues1 @ [ascii ''[TONE] Avoid negative language'']
                     else issues1);
          issues3 = (if length draft > 280
                     then issues2 @ [ascii ''[CLARITY] Keep under 280 characters for social media'']
                     else issues2)
      in issues3)"

definition fallback_review :: "pystr \<Rightarrow> pystr" where
  "fallback_review draft =
     (case fallback_issues draft of [] \<Rightarrow> APPROVED | issue # _ \<Rightarrow> issue)"

definition review_prompt :: "pystr \<Rightarrow> pystr" where
  "review_prompt draft =
     ascii ''Review this ad copy: '' @ [34] @ draft @ [34] @ [10, 10]
       @ ascii ''Is it compliant and ready to publish?''"

definition reviewer_feedback :: "env \<Rightarrow> state \<Rightarrow> pystr \<times> pystr" where
  "reviewer_feedback e s =
     (let draft = draft_text s
      in case reviewer_llm e (length (review_feedback s)) (review_prompt draft) of
           Content c \<Rightarrow> (py_strip c, ascii ''SUCCESS'')
         | LLMError \<Rightarrow> (fallback_review draft, ascii ''FALLBACK''))"

definition reviewer_node :: "env \<Rightarrow> state \<Rightarrow> update" where
  "reviewer_node e s =
     (let draft = draft_text s;
          (feedback, status) = reviewer_feedback e s;
          is_approved = py_in APPROVED (py_upper feedback);
          approved_text = (if is_approved then Some draft else final_approved_text s);
          compliance_flags =
            (if \<not> is_approved \<and> feedback \<notin> set (compliance_flags s)
             then compliance_flags s @ [feedback]
             else compliance_flags s);
          log_entry =
            log_agent_action e s (ascii ''Reviewer'') (ascii ''compliance_check'') feedback status
      in no_update\<lparr>
           u_review_feedback := Some (review_feedback s @ [feedback]),
           u_final_approved_text := Some approved_text,
           u_is_approved := Some is_approved,
           u_compliance_flags := Some compliance_flags,
           u_agent_execution_log := Some (agent_execution_log s @ [log_entry]) \<rparr>)"

subsection \<open>Art director\<close>

text \<open>
  The prompt sent to the image service.  The source also reads
  \<^verbatim>\<open>approved_text = state.get('final_approved_text', state['draft_text'])\<close> but never uses it.
\<close>

definition image_prompt :: "state \<Rightarrow> pystr" where
  "image_prompt s =
     (let product = user_prompt s
      in ascii ''Professional product photography and marketing design. ''
         @ ascii ''Product: '' @ product @ ascii ''. ''
         @ ascii ''Style: High-quality, clean background, vibrant colors, modern marketing aesthetic. ''
         @ ascii ''Resolution: 4K, studio lighting, professional product shot.'')"

text \<open>
  \<^verbatim>\<open>generate_image_with_hf\<close> catches every exception itself, so the \<^verbatim>\<open>except\<close> branch of
  the node is never taken and the status is always \<^verbatim>\<open>SUCCESS\<close>.
\<close>

definition art_director_node :: "env \<Rightarrow> state \<Rightarrow> update" where
  "art_director_node e s =
     (let iteration = current_iteration s + 1;
          image_url = generate_image_with_hf e (image_prompt s);
          status = ascii ''SUCCESS'';
          log_entry =
            log_agent_action e s (ascii ''Art Director'') (ascii ''image_generation'') image_url status
      in no_update\<lparr>
           u_image_url := Some image_url,
           u_current_iteration := Some iteration,
           u_agent_execution_log := Some (agent_execution_log s @ [log_entry]) \<rparr>)"

section \<open>The router\<close>

definition router_function :: "state \<Rightarrow> string" where
  "router_function s =
     (let max_retries = 3;
          latest_feedback = (if review_feedback s \<noteq> [] then last (review_feedback s) else []);
          current_retries = retries s
      in if current_retries > max_retries then ''generate_image''
         else if py_in APPROVED (py_upper latest_feedback) then ''generate_image''
         else ''revise_draft'')"

section \<open>The workflow graph\<close>

text \<open>
  The graph built in section 5 of \<^verbatim>\<open>main.py\<close>: the entry point is the writer, the writer
  is always followed by the reviewer, the art director by \<open>END\<close>, and after the reviewer
  the key returned by \<open>router_function\<close> (called on the state that already holds the
  reviewer's update) is looked up in the path map.  \<open>START\<close> is the hidden entry node of
  a compiled state graph: it writes the input into the state and hands over to the entry
  point.
\<close>

datatype node = START | writer | reviewer | art_director | END

definition path_map :: "string \<Rightarrow> node option" where
  "path_map key =
     (if key = ''generate_image'' then Some art_director
      else if key = ''revise_draft'' then Some writer
      else if key = ''end'' then Some END
      else None)"

datatype graph_error = GraphRecursionError | KeyError

fun run_node :: "env \<Rightarrow> node \<Rightarrow> state \<Rightarrow> update" where
  "run_node e START s = no_update"
| "run_node e writer s = writer_node e s"
| "run_node e reviewer s = reviewer_node e s"
| "run_node e art_director s = art_director_node e s"
| "run_node e END s = no_update"

fun successor :: "node \<Rightarrow> state \<Rightarrow> graph_error + node" where
  "successor START s = Inr writer"
| "successor writer s = Inr reviewer"
| "successor art_director s = Inr END"
| "successor reviewer s =
     (case path_map (router_function s) of Some n \<Rightarrow> Inr n | None \<Rightarrow> Inl KeyError)"
| "successor END s = Inr END"

text \<open>
  \<^verbatim>\<open>app.stream(inputs, {"recursion_limit": n})\<close> in the default stream mode of a compiled
  state graph: one event per executed node, holding the node's name and the update the
  node returned; the hidden entry node produces no event.  The second argument is the
  number of super-steps still allowed, the entry step included; when a node is due and
  none is left the stream raises \<^verbatim>\<open>GraphRecursionError\<close>.  The caller drops every event
  on an exception, so the model returns either the error or the complete list of events.
\<close>

fun stream :: "env \<Rightarrow> nat \<Rightarrow> node \<Rightarrow> state \<Rightarrow> graph_error + (node \<times> update) list" where
  "stream e fuel END s = Inr []"
| "stream e 0 n s = Inl GraphRecursionError"
| "stream e (Suc fuel) n s =
     (let u = run_node e n s; s' = merge s u
      in case successor n s' of
           Inl err \<Rightarrow> Inl err
         | Inr n' \<Rightarrow>
             (case stream e fuel n' s' of
                Inl err \<Rightarrow> Inl err
              | Inr events \<Rightarrow> Inr (if n = START then events else (n, u) # events)))"

text \<open>The state of the graph after a list of events.\<close>

definition replay :: "state \<Rightarrow> (node \<times> update) list \<Rightarrow> state" where
  "replay s events = foldl merge s (map snd events)"

section \<open>The run entry point\<close>

definition inputs :: "env \<Rightarrow> pystr \<Rightarrow> state" where
  "inputs e product_description =
     \<lparr> user_prompt = product_description,
       draft_text = [],
       review_feedback = [],
       final_approved_text = None,
       image_url = [],
       retries = 0,
       current_iteration = 0,
       workflow_start_time = time_start e,
       agent_execution_log = [],
       compliance_flags = [],
       is_approved = False \<rparr>"

definition recursion_limit :: nat where
  "recursion_limit = 10"

text \<open>The values of the returned dictionary.\<close>

datatype pyval =
    PStr pystr
  | PInt int
  | PBool bool
  | PFloat real
  | PStrList "pystr list"
  | PLogList "log_entry list"

text \<open>
  Lines 598 to 669: \<open>result_state\<close> is the value under the last key of the last event,
  that is, the update returned by the last node; every field of the result is read from
  it with \<^verbatim>\<open>.get\<close> and a default.
\<close>

definition summary :: "env \<Rightarrow> update \<Rightarrow> (string \<times> pyval) list" where
  "summary e result_state =
     (let workflow_duration = time_end e - time_start e;
          approved_copy =
            (case u_final_approved_text result_state of
               Some (Some t) \<Rightarrow>
                 (if t \<noteq> [] then t
                  else (case u_draft_text result_state of Some d \<Rightarrow> d | None \<Rightarrow> ascii ''N/A''))
             | _ \<Rightarrow> (case u_draft_text result_state of Some d \<Rightarrow> d | None \<Rightarrow> ascii ''N/A''));
          image_url = (case u_image_url result_state of Some v \<Rightarrow> v | None \<Rightarrow> ascii ''N/A'')
      in [(''final_approved_text'', PStr approved_copy),
          (''image_url'', PStr image_url),
          (''retries'', PInt (case u_retries result_state of Some v \<Rightarrow> v | None \<Rightarrow> 0)),
          (''review_feedback'',
             PStrList (case u_review_feedback result_state of Some v \<Rightarrow> v | None \<Rightarrow> [])),
          (''compliance_flags'',
             PStrList (case u_compliance_flags result_state of Some v \<Rightarrow> v | None \<Rightarrow> [])),
          (''execution_time'', PFloat workflow_duration),
          (''agent_log'',
             PLogList (case u_agent_execution_log result_state of Some v \<Rightarrow> v | None \<Rightarrow> [])),
          (''is_approved'',
             PBool (case u_is_approved result_state of Some v \<Rightarrow> v | None \<Rightarrow> False))])"

text \<open>
  The body of \<^verbatim>\<open>run_campaign_generator\<close> with the recursion limit as a parameter: an
  exception of the stream gives \<^verbatim>\<open>None\<close>, and so does a stream without events.  The
  entry point itself passes the limit 10.
\<close>

definition run_with_limit :: "nat \<Rightarrow> env \<Rightarrow> pystr \<Rightarrow> (string \<times> pyval) list option" where
  "run_with_limit limit e product_description =
     (case stream e limit START (inputs e product_description) of
        Inl err \<Rightarrow> None
      | Inr events \<Rightarrow>
          (if events = [] then None
           else Some (summary e (snd (last events)))))"

definition run_campaign_generator :: "env \<Rightarrow> pystr \<Rightarrow> (string \<times> pyval) list option" where
  "run_campaign_generator e product_description =
     run_with_limit recursion_limit e product_description"

section \<open>Single steps and concrete environments\<close>

text \<open>One super-step of the graph on the state: run the node and merge what it returns.\<close>

definition step :: "env \<Rightarrow> node \<Rightarrow> state \<Rightarrow> state" where
  "step e n s = merge s (run_node e n s)"

definition run_steps :: "env \<Rightarrow> node list \<Rightarrow> state \<Rightarrow> state" where
  "run_steps e ns s = foldl (\<lambda>s' n. step e n s') s ns"

text \<open>
  A finished stream: no error, at least one and at most \<open>n\<close> events, and the last event
  is the update returned by the art director on some state.
\<close>

definition done_within :: "env \<Rightarrow> nat \<Rightarrow> graph_error + (node \<times> update) list \<Rightarrow> bool" where
  "done_within e n r =
     (case r of
        Inl err \<Rightarrow> False
      | Inr events \<Rightarrow>
          events \<noteq> [] \<and> length events \<le> n \<and>
          (\<exists>s. last events = (art_director, art_director_node e s)))"

text \<open>
  No service is configured: both language models and the image client are missing, so
  every node takes its fallback.
\<close>

definition offline :: env where
  "offline =
     \<lparr> writer_llm = (\<lambda>k message. LLMError),
       reviewer_llm = (\<lambda>k message. LLMError),
       HF_CLIENT = None,
       now_iso = (\<lambda>k. ascii ''2025-01-01T00:00:00''),
       time_start = 0,
       time_end = 1 \<rparr>"

text \<open>The writer model is missing and the reviewer model answers every call with \<open>verdict\<close>.\<close>

definition replying :: "pystr \<Rightarrow> env" where
  "replying verdict = offline\<lparr> reviewer_llm := (\<lambda>k message. Content verdict) \<rparr>"

text \<open>The writer model answers every call with \<open>draft\<close> and the reviewer model is missing.\<close>

definition drafting :: "pystr \<Rightarrow> env" where
  "drafting draft = offline\<lparr> writer_llm := (\<lambda>k message. Content draft) \<rparr>"

text \<open>
  No language model, and an image client that saves a file whose name repeats the prompt
  it was given, so that the request made to the image service can be read off the result.
\<close>

definition echoing :: env where
  "echoing = offline\<lparr> HF_CLIENT := Some (\<lambda>prompt. Saved prompt) \<rparr>"

definition bottle :: pystr where
  "bottle = ascii ''bamboo water bottle''"

definition never_leak :: pystr where
  "never_leak = ascii ''never-leak bottle''"

definition tone_verdict :: pystr where
  "tone_verdict = ascii ''[TONE] Make it more energetic''"

section \<open>Auxiliary facts\<close>

lemmas node_defs = writer_node_def reviewer_node_def art_director_node_def no_update_def merge_def

lemmas string_defs = ascii_def APPROVED_def py_upper_def upper_cp_def py_lower_def lower_cp_def
  py_strip_def py_isspace_def

lemmas review_defs = fallback_review_def fallback_issues_def banned_phrases_def negative_words_def

subsection \<open>What one step does to each field\<close>

lemma step_writer_fields:
  "user_prompt (step e writer s) = user_prompt s"
  "draft_text (step e writer s) = fst (writer_draft e s)"
  "review_feedback (step e writer s) = review_feedback s"
  "final_approved_text (step e writer s) = final_approved_text s"
  "image_url (step e writer s) = image_url s"
  "retries (step e writer s) = retries s + 1"
  "current_iteration (step e writer s) = current_iteration s + 1"
  "compliance_flags (step e writer s) = compliance_flags s"
  "is_approved (step e writer s) = is_approved s"
  by (simp_all add: step_def node_defs Let_def split: prod.splits)

lemma step_reviewer_fields:
  "user_prompt (step e reviewer s) = user_prompt s"
  "draft_text (step e reviewer s) = draft_text s"
  "review_feedback (step e reviewer s) = review_feedback s @ [fst (reviewer_feedback e s)]"
  "final_approved_text (step e reviewer s) =
     (if py_in APPROVED (py_upper (fst (reviewer_feedback e s))) then Some (draft_text s)
      else final_approved_text s)"
  "image_url (step e reviewer s) = image_url s"
  "retries (step e reviewer s) = retries s"
  "current_iteration (step e reviewer s) = current_iteration s"
  "compliance_flags (step e reviewer s) =
     (if \<not> py_in APPROVED (py_upper (fst (reviewer_feedback e s))) \<and>
         fst (reviewer_feedback e s) \<notin> set (compliance_flags s)
      then compliance_flags s @ [fst (reviewer_feedback e s)] else compliance_flags s)"
  "is_approved (step e reviewer s) = py_in APPROVED (py_upper (fst (reviewer_feedback e s)))"
  by (simp_all add: step_def node_defs Let_def split: prod.splits)

lemma step_art_director_fields:
  "user_prompt (step e art_director s) = user_prompt s"
  "draft_text (step e art_director s) = draft_text s"
  "review_feedback (step e art_director s) = review_feedback s"
  "final_approved_text (step e art_director s) = final_approved_text s"
  "image_url (step e art_director s) = generate_image_with_hf e (image_prompt s)"
  "retries (step e art_director s) = retries s"
  "current_iteration (step e art_director s) = current_iteration s + 1"
  "compliance_flags (step e art_director s) = compliance_flags s"
  "is_approved (step e art_director s) = is_approved s"
  by (simp_all add: step_def node_defs Let_def split: prod.splits)

lemma step_idle: "step e START s = s" "step e END s = s"
  by (simp_all add: step_def merge_def no_update_def)

lemmas step_fields = step_writer_fields step_reviewer_fields step_art_director_fields

lemma inputs_fields:
  "user_prompt (inputs e p) = p"
  "draft_text (inputs e p) = []"
  "review_feedback (inputs e p) = []"
  "final_approved_text (inputs e p) = None"
  "retries (inputs e p) = 0"
  "current_iteration (inputs e p) = 0"
  "compliance_flags (inputs e p) = []"
  "is_approved (inputs e p) = False"
  by (simp_all add: inputs_def)

subsection \<open>The concrete environments\<close>

lemma reviewer_feedback_replying:
  "fst (reviewer_feedback (replying v) s) = py_strip v"
  by (simp add: reviewer_feedback_def replying_def Let_def)

lemma writer_draft_fallback:
  "fst (writer_draft offline s) = fallback_draft s"
  "fst (writer_draft (replying v) s) = fallback_draft s"
  "fst (writer_draft echoing s) = fallback_draft s"
  by (simp_all add: writer_draft_def replying_def echoing_def offline_def)

lemma reviewer_feedback_fallback:
  "fst (reviewer_feedback offline s) = fallback_review (draft_text s)"
  "fst (reviewer_feedback (drafting d) s) = fallback_review (draft_text s)"
  "fst (reviewer_feedback echoing s) = fallback_review (draft_text s)"
  by (simp_all add: reviewer_feedback_def drafting_def echoing_def offline_def Let_def)

lemma art_director_echoing:
  "u_image_url (art_director_node echoing s) =
     Some (ascii ''Generated: '' @ ascii ''campaign_output_'' @ image_prompt s @ ascii ''.png'')"
  by (simp add: art_director_node_def no_update_def generate_image_with_hf_def echoing_def
      offline_def Let_def)

lemma writer_draft_drafting:
  "fst (writer_draft (drafting d) s) = py_strip d"
  by (simp add: writer_draft_def drafting_def)

lemma py_strip_tone_verdict: "py_strip tone_verdict = tone_verdict"
  by (simp add: tone_verdict_def string_defs)

lemma tone_verdict_not_approved: "\<not> py_in APPROVED (py_upper tone_verdict)"
  by (simp add: tone_verdict_def string_defs)

lemma APPROVED_in_itself: "py_in APPROVED APPROVED"
  by (simp add: string_defs)

lemma fallback_review_bottle:
  "user_prompt s = bottle \<Longrightarrow> review_feedback s = [] \<Longrightarrow>
   fallback_review (fallback_draft s) = APPROVED"
  by (simp add: fallback_draft_def review_defs bottle_def string_defs Let_def)

lemma fallback_review_never_leak:
  "user_prompt s = never_leak \<Longrightarrow>
   fallback_review (fallback_draft s) = claim_issue (ascii ''never'')"
  by (simp add: fallback_draft_def review_defs never_leak_def string_defs Let_def)

lemma claim_never_not_approved:
  "\<not> py_in APPROVED (py_upper (claim_issue (ascii ''never'')))"
  by (simp add: claim_issue_def string_defs)

subsection \<open>The router and the stream\<close>

lemma router_function_cases:
  "router_function s = ''generate_image'' \<or> router_function s = ''revise_draft''"
  by (simp add: router_function_def Let_def)

lemma router_function_forced:
  "3 < retries s \<Longrightarrow> router_function s = ''generate_image''"
  by (simp add: router_function_def Let_def)

lemma router_function_approved:
  "review_feedback s \<noteq> [] \<Longrightarrow> py_in APPROVED (py_upper (last (review_feedback s))) \<Longrightarrow>
   router_function s = ''generate_image''"
  by (simp add: router_function_def Let_def)

lemma router_function_revise:
  "\<not> 3 < retries s \<Longrightarrow>
   review_feedback s = [] \<or> \<not> py_in APPROVED (py_upper (last (review_feedback s))) \<Longrightarrow>
   router_function s = ''revise_draft''"
  by (auto simp add: router_function_def Let_def string_defs)

lemma stream_START:
  "stream e (Suc fuel) START s = stream e fuel writer s"
  by (simp add: Let_def merge_def no_update_def split: sum.splits)

lemma stream_writer:
  "stream e (Suc fuel) writer s =
     (case stream e fuel reviewer (step e writer s) of
        Inl err \<Rightarrow> Inl err
      | Inr events \<Rightarrow> Inr ((writer, writer_node e s) # events))"
  by (simp add: Let_def step_def split: sum.splits)

lemma stream_reviewer_proceed:
  "router_function (step e reviewer s) = ''generate_image'' \<Longrightarrow>
   stream e (Suc (Suc fuel)) reviewer s =
     Inr [(reviewer, reviewer_node e s),
          (art_director, art_director_node e (step e reviewer s))]"
  by (simp add: Let_def path_map_def step_def)

lemma stream_reviewer_revise:
  "router_function (step e reviewer s) = ''revise_draft'' \<Longrightarrow>
   stream e (Suc fuel) reviewer s =
     (case stream e fuel writer (step e reviewer s) of
        Inl err \<Rightarrow> Inl err
      | Inr events \<Rightarrow> Inr ((reviewer, reviewer_node e s) # events))"
  by (simp add: Let_def path_map_def step_def split: sum.splits)

lemma writer_loop_done:
  "3 - int k \<le> retries s \<Longrightarrow> 2 * k + 3 \<le> fuel \<Longrightarrow>
   done_within e (2 * k + 3) (stream e fuel writer s)"
proof (induction k arbitrary: s fuel)
  case 0
  then have "fuel = Suc (Suc (Suc (fuel - 3)))" by arith
  then obtain f where fuel: "fuel = Suc (Suc (Suc f))" ..
  have "3 < retries (step e reviewer (step e writer s))"
    using 0 by (simp add: step_fields)
  then have "router_function (step e reviewer (step e writer s)) = ''generate_image''"
    by (rule router_function_forced)
  then show ?case
    unfolding fuel stream_writer
    by (auto simp add: stream_reviewer_proceed done_within_def simp del: stream.simps)
next
  case (Suc k)
  then have "fuel = Suc (Suc (fuel - 2)) \<and> 2 * k + 3 \<le> fuel - 2" by arith
  then obtain f where fuel: "fuel = Suc (Suc f)" and f: "2 * k + 3 \<le> f" by blast
  let ?s2 = "step e reviewer (step e writer s)"
  have r: "3 - int k \<le> retries ?s2"
    using Suc.prems by (simp add: step_fields)
  consider (proceed) "router_function ?s2 = ''generate_image''"
    | (revise) "router_function ?s2 = ''revise_draft''"
    using router_function_cases by blast
  then show ?case
  proof cases
    case proceed
    from f have "f = Suc (f - 1)" by arith
    then obtain f' where "f = Suc f'" ..
    with proceed show ?thesis
      unfolding fuel stream_writer
      by (auto simp add: stream_reviewer_proceed done_within_def simp del: stream.simps)
  next
    case revise
    have "done_within e (2 * k + 3) (stream e f writer ?s2)"
      using Suc.IH [OF r f] .
    with revise show ?thesis
      unfolding fuel stream_writer
      by (auto simp add: stream_reviewer_revise done_within_def simp del: stream.simps
          split: sum.splits)
  qed
qed

lemma stream_done:
  "10 \<le> fuel \<Longrightarrow> done_within e 9 (stream e fuel START (inputs e brief))"
proof -
  assume "10 \<le> fuel"
  then have "fuel = Suc (fuel - 1) \<and> 2 * 3 + 3 \<le> fuel - 1" by arith
  then obtain f where fuel: "fuel = Suc f" and f: "2 * 3 + 3 \<le> f" by blast
  have "3 - int 3 \<le> retries (inputs e brief)"
    by (simp add: inputs_fields)
  from writer_loop_done [OF this f] show ?thesis
    unfolding fuel stream_START by simp
qed

subsection \<open>The summary of an art director update\<close>

lemma summary_art_director:
  "summary e (art_director_node e s) =
     [(''final_approved_text'', PStr (ascii ''N/A'')),
      (''image_url'', PStr (generate_image_with_hf e (image_prompt s))),
      (''retries'', PInt 0),
      (''review_feedback'', PStrList []),
      (''compliance_flags'', PStrList []),
      (''execution_time'', PFloat (time_end e - time_start e)),
      (''agent_log'',
         PLogList (agent_execution_log s @
           [log_agent_action e s (ascii ''Art Director'') (ascii ''image_generation'')
              (generate_image_with_hf e (image_prompt s)) (ascii ''SUCCESS'')])),
      (''is_approved'', PBool False)]"
  by (simp add: summary_def art_director_node_def no_update_def Let_def)

lemma run_campaign_generator_result:
  "\<exists>s. run_campaign_generator e brief = Some (summary e (art_director_node e s))"
proof -
  have "done_within e 9 (stream e recursion_limit START (inputs e brief))"
    by (rule stream_done) (simp add: recursion_limit_def)
  then show ?thesis
    by (auto simp add: run_campaign_generator_def run_with_limit_def done_within_def
        split: sum.splits)
qed


section \<open>The claims\<close>

text \<open>
  C1.  Whatever the brief and whatever the writer, the reviewer and the image service
  answer, the stream of the graph ends without an error as soon as ten super-steps are
  allowed (the hidden entry step and at most nine node executions): it produces at least
  one and at most nine events and the last one is the art director's.  The run cannot
  loop, because the router sends the fourth review on to the art director.
\<close>

theorem driver_terminates:
  "10 \<le> fuel \<Longrightarrow>
   (\<exists>events. stream e fuel START (inputs e brief) = Inr events \<and> events \<noteq> [] \<and>
      length events \<le> 9 \<and> fst (last events) = art_director)"
proof -
  assume "10 \<le> fuel"
  then have "done_within e 9 (stream e fuel START (inputs e brief))"
    by (rule stream_done)
  then show ?thesis
    by (auto simp add: done_within_def split: sum.splits)
qed

theorem driver_terminates_witness:
  "10 \<le> recursion_limit \<and>
   (\<exists>events. stream (replying tone_verdict) recursion_limit START
        (inputs (replying tone_verdict) bottle) = Inr events \<and> events \<noteq> [] \<and>
      length events \<le> 9 \<and> fst (last events) = art_director)"
proof -
  have h: "10 \<le> recursion_limit" by (simp add: recursion_limit_def)
  from h driver_terminates [OF h] show ?thesis by blast
qed

text \<open>
  C2.  The router decides by the first matching rule: more than three attempts give
  \<open>generate_image\<close> whatever the feedback is; otherwise a latest feedback that contains
  the approval marker gives \<open>generate_image\<close>; otherwise the router asks for a revision.
\<close>

theorem router_first_match:
  "(3 < retries s \<longrightarrow> router_function s = ''generate_image'') \<and>
   (\<not> 3 < retries s \<and> review_feedback s \<noteq> [] \<and>
      py_in APPROVED (py_upper (last (review_feedback s)))
      \<longrightarrow> router_function s = ''generate_image'') \<and>
   (\<not> 3 < retries s \<and>
      (review_feedback s = [] \<or> \<not> py_in APPROVED (py_upper (last (review_feedback s))))
      \<longrightarrow> router_function s = ''revise_draft'')"
  using router_function_forced router_function_approved router_function_revise by blast

theorem router_first_match_witness:
  "router_function (run_steps (replying tone_verdict)
       [writer, reviewer, writer, reviewer, writer, reviewer, writer, reviewer]
       (inputs (replying tone_verdict) bottle)) = ''generate_image'' \<and>
   router_function (run_steps offline [writer, reviewer] (inputs offline bottle))
     = ''generate_image'' \<and>
   router_function (run_steps (replying tone_verdict) [writer, reviewer]
       (inputs (replying tone_verdict) bottle)) = ''revise_draft''"
proof -
  let ?forced = "run_steps (replying tone_verdict)
       [writer, reviewer, writer, reviewer, writer, reviewer, writer, reviewer]
       (inputs (replying tone_verdict) bottle)"
  let ?approved = "run_steps offline [writer, reviewer] (inputs offline bottle)"
  let ?revise = "run_steps (replying tone_verdict) [writer, reviewer]
       (inputs (replying tone_verdict) bottle)"
  have h1: "3 < retries ?forced"
    by (simp add: run_steps_def step_fields inputs_fields)
  have h2: "\<not> 3 < retries ?approved \<and> review_feedback ?approved \<noteq> [] \<and>
      py_in APPROVED (py_upper (last (review_feedback ?approved)))"
    by (simp add: run_steps_def step_fields inputs_fields writer_draft_fallback
        reviewer_feedback_fallback fallback_review_bottle)
       (simp add: string_defs)
  have h3: "\<not> 3 < retries ?revise \<and>
      (review_feedback ?revise = [] \<or>
       \<not> py_in APPROVED (py_upper (last (review_feedback ?revise))))"
    by (simp add: run_steps_def step_fields inputs_fields reviewer_feedback_replying
        py_strip_tone_verdict tone_verdict_not_approved)
  from router_first_match [of ?forced] h1
  have "router_function ?forced = ''generate_image''" by blast
  moreover from router_first_match [of ?approved] h2
  have "router_function ?approved = ''generate_image''" by blast
  moreover from router_first_match [of ?revise] h3
  have "router_function ?revise = ''revise_draft''" by blast
  ultimately show ?thesis by blast
qed


text \<open>
  C3, as amended.  After a reviewer step, \<open>is_approved\<close> is true when the entry just
  appended is the approval marker in any letter case, and false when the upper-cased
  entry does not contain the marker.  (The claim asked for the literal marker.)
\<close>

theorem approval_flag_follows_marker:
  "(py_upper (last (review_feedback (step e reviewer s))) = APPROVED
      \<longrightarrow> is_approved (step e reviewer s)) \<and>
   (\<not> py_in APPROVED (py_upper (last (review_feedback (step e reviewer s))))
      \<longrightarrow> \<not> is_approved (step e reviewer s))"
  by (simp add: step_fields APPROVED_in_itself)

theorem approval_flag_follows_marker_witness:
  "is_approved (step (replying (ascii ''approved'')) reviewer
       (step (replying (ascii ''approved'')) writer (inputs (replying (ascii ''approved'')) bottle))) \<and>
   \<not> is_approved (step (replying tone_verdict) reviewer
       (step (replying tone_verdict) writer (inputs (replying tone_verdict) bottle)))"
proof -
  let ?e1 = "replying (ascii ''approved'')"
  let ?s1 = "step ?e1 writer (inputs ?e1 bottle)"
  let ?e2 = "replying tone_verdict"
  let ?s2 = "step ?e2 writer (inputs ?e2 bottle)"
  have h1: "py_upper (last (review_feedback (step ?e1 reviewer ?s1))) = APPROVED"
    by (simp add: step_fields reviewer_feedback_replying string_defs)
  have h2: "\<not> py_in APPROVED (py_upper (last (review_feedback (step ?e2 reviewer ?s2))))"
    by (simp add: step_fields reviewer_feedback_replying py_strip_tone_verdict
        tone_verdict_not_approved)
  from approval_flag_follows_marker [of ?e1 ?s1] h1
  have "is_approved (step ?e1 reviewer ?s1)" by blast
  moreover from approval_flag_follows_marker [of ?e2 ?s2] h2
  have "\<not> is_approved (step ?e2 reviewer ?s2)" by blast
  ultimately show ?thesis by blast
qed

text \<open>
  C3 as stated fails: when the reviewer model answers \<open>approved\<close> in lower case, the
  entry appended is not the literal marker and yet \<open>is_approved\<close> is set.
\<close>

theorem approval_flag_not_exact_marker:
  "is_approved (run_steps (replying (ascii ''approved'')) [writer, reviewer]
       (inputs (replying (ascii ''approved'')) bottle)) \<and>
   last (review_feedback (run_steps (replying (ascii ''approved'')) [writer, reviewer]
       (inputs (replying (ascii ''approved'')) bottle))) \<noteq> APPROVED"
  by (simp add: run_steps_def step_fields inputs_fields reviewer_feedback_replying string_defs)

text \<open>
  The substring test also reads the rule-based rejection of the banned phrase
  \<open>approved by\<close> as an approval: the draft that was just flagged becomes the approved
  text and no compliance flag is recorded.
\<close>

lemma flagged_draft_is_approved:
  "review_feedback (run_steps (drafting (ascii ''Approved by doctors!'')) [writer, reviewer]
       (inputs (drafting (ascii ''Approved by doctors!'')) bottle))
     = [claim_issue (ascii ''approved by'')] \<and>
   is_approved (run_steps (drafting (ascii ''Approved by doctors!'')) [writer, reviewer]
       (inputs (drafting (ascii ''Approved by doctors!'')) bottle)) \<and>
   final_approved_text (run_steps (drafting (ascii ''Approved by doctors!'')) [writer, reviewer]
       (inputs (drafting (ascii ''Approved by doctors!'')) bottle))
     = Some (ascii ''Approved by doctors!'') \<and>
   compliance_flags (run_steps (drafting (ascii ''Approved by doctors!'')) [writer, reviewer]
       (inputs (drafting (ascii ''Approved by doctors!'')) bottle)) = []"
proof -
  have d: "py_strip (ascii ''Approved by doctors!'') = ascii ''Approved by doctors!''"
    by (simp add: string_defs)
  have v: "fallback_review (ascii ''Approved by doctors!'') = claim_issue (ascii ''approved by'')"
    by (simp add: review_defs string_defs Let_def)
  have a: "py_in APPROVED (py_upper (claim_issue (ascii ''approved by'')))"
    by (simp add: claim_issue_def string_defs)
  show ?thesis
    by (simp add: run_steps_def step_fields inputs_fields writer_draft_drafting
        reviewer_feedback_fallback d v a)
qed

text \<open>
  C4, as amended.  When the generation service is unavailable, the draft written after
  the first verdict differs from the first draft: the template changes once there is
  feedback.  (The claim asked for a change after every rejection.)
\<close>

theorem fallback_draft_changes_after_first_verdict:
  assumes "\<forall>k message. writer_llm e k message = LLMError"
    and "review_feedback s = []"
  shows "draft_text (step e writer (step e reviewer (step e writer s)))
           \<noteq> draft_text (step e writer s)"
  using assms
  by (simp add: step_fields writer_draft_def fallback_draft_def Let_def)

theorem fallback_draft_changes_after_first_verdict_witness:
  "draft_text (step offline writer (step offline reviewer (step offline writer
       (inputs offline never_leak))))
     \<noteq> draft_text (step offline writer (inputs offline never_leak))"
proof -
  have h1: "\<forall>k message. writer_llm offline k message = LLMError"
    by (simp add: offline_def)
  have h2: "review_feedback (inputs offline never_leak) = []"
    by (simp add: inputs_fields)
  from fallback_draft_changes_after_first_verdict [OF h1 h2] show ?thesis .
qed

text \<open>
  C4 as stated fails on the fallback path: with no service configured and a brief that
  contains the banned word \<open>never\<close>, the second verdict is a rejection, the router asks
  for a revision, and the third draft is the second draft again.
\<close>

theorem fallback_draft_repeats_after_second_rejection:
  "\<not> is_approved (run_steps offline [writer, reviewer, writer, reviewer]
       (inputs offline never_leak)) \<and>
   router_function (run_steps offline [writer, reviewer, writer, reviewer]
       (inputs offline never_leak)) = ''revise_draft'' \<and>
   draft_text (run_steps offline [writer, reviewer, writer, reviewer, writer]
       (inputs offline never_leak))
     = draft_text (run_steps offline [writer, reviewer, writer] (inputs offline never_leak))"
proof -
  let ?s2 = "run_steps offline [writer, reviewer] (inputs offline never_leak)"
  let ?s4 = "run_steps offline [writer, reviewer, writer, reviewer] (inputs offline never_leak)"
  have verdict: "last (review_feedback ?s4) = claim_issue (ascii ''never'')"
    by (simp add: run_steps_def step_fields inputs_fields writer_draft_fallback
        reviewer_feedback_fallback fallback_review_never_leak)
  have rejected: "\<not> is_approved ?s4"
    by (simp add: run_steps_def step_fields inputs_fields writer_draft_fallback
        reviewer_feedback_fallback fallback_review_never_leak claim_never_not_approved)
  have "\<not> 3 < retries ?s4"
    by (simp add: run_steps_def step_fields inputs_fields)
  then have revise: "router_function ?s4 = ''revise_draft''"
    by (rule router_function_revise) (simp add: verdict claim_never_not_approved)
  have "fallback_draft ?s4 = fallback_draft ?s2"
    by (simp add: run_steps_def step_fields inputs_fields fallback_draft_def)
  then have same: "draft_text (step offline writer ?s4) = draft_text (step offline writer ?s2)"
    by (simp add: step_fields writer_draft_fallback)
  from rejected revise same show ?thesis
    by (simp add: run_steps_def)
qed


text \<open>
  C5, as amended.  A reply of the reviewer model whose stripped, upper-cased text does
  not contain the approval marker is a rejection and never an error: the approval flag
  is cleared, the approved text is kept, the verdict is appended as it is to the feedback
  history and, unless already there, to the compliance flags, and the router continues
  with the writer or, after more than three attempts, with the art director.  No
  category is attached to the verdict.
\<close>

theorem unrecognised_verdict_is_rejection:
  assumes "reviewer_llm e (length (review_feedback s)) (review_prompt (draft_text s)) = Content c"
    and "\<not> py_in APPROVED (py_upper (py_strip c))"
  shows "\<not> is_approved (step e reviewer s) \<and>
         final_approved_text (step e reviewer s) = final_approved_text s \<and>
         review_feedback (step e reviewer s) = review_feedback s @ [py_strip c] \<and>
         compliance_flags (step e reviewer s) =
           (if py_strip c \<in> set (compliance_flags s) then compliance_flags s
            else compliance_flags s @ [py_strip c]) \<and>
         successor reviewer (step e reviewer s) =
           Inr (if 3 < retries s then art_director else writer)"
proof -
  have v: "fst (reviewer_feedback e s) = py_strip c"
    using assms(1) by (simp add: reviewer_feedback_def Let_def)
  have "router_function (step e reviewer s) =
      (if 3 < retries s then ''generate_image'' else ''revise_draft'')"
    using assms(2) by (simp add: router_function_def Let_def step_fields v)
  then have "successor reviewer (step e reviewer s) =
      Inr (if 3 < retries s then art_director else writer)"
    by (simp add: path_map_def)
  then show ?thesis
    using assms(2) by (simp add: step_fields v)
qed

theorem unrecognised_verdict_is_rejection_witness:
  "\<not> is_approved (step (replying (ascii ''needs work'')) reviewer
       (step (replying (ascii ''needs work'')) writer
          (inputs (replying (ascii ''needs work'')) bottle))) \<and>
   successor reviewer (step (replying (ascii ''needs work'')) reviewer
       (step (replying (ascii ''needs work'')) writer
          (inputs (replying (ascii ''needs work'')) bottle))) = Inr writer"
proof -
  let ?e = "replying (ascii ''needs work'')"
  let ?s = "step ?e writer (inputs ?e bottle)"
  have h1: "reviewer_llm ?e (length (review_feedback ?s)) (review_prompt (draft_text ?s))
      = Content (ascii ''needs work'')"
    by (simp add: replying_def)
  have h2: "\<not> py_in APPROVED (py_upper (py_strip (ascii ''needs work'')))"
    by (simp add: string_defs)
  have "\<not> 3 < retries ?s"
    by (simp add: step_fields inputs_fields)
  with unrecognised_verdict_is_rejection [OF h1 h2] show ?thesis by simp
qed

text \<open>
  C5 as stated fails: the reply \<open>needs work\<close> carries no recognised tag, and it is
  recorded word for word in the feedback history and in the compliance flags; nothing
  marks it as \<open>OTHER\<close>.
\<close>

theorem unrecognised_verdict_gets_no_category:
  "review_feedback (run_steps (replying (ascii ''needs work'')) [writer, reviewer]
       (inputs (replying (ascii ''needs work'')) bottle)) = [ascii ''needs work''] \<and>
   compliance_flags (run_steps (replying (ascii ''needs work'')) [writer, reviewer]
       (inputs (replying (ascii ''needs work'')) bottle)) = [ascii ''needs work''] \<and>
   \<not> py_in (ascii ''OTHER'') (ascii ''needs work'')"
  by (simp add: run_steps_def step_fields inputs_fields reviewer_feedback_replying string_defs)

text \<open>
  C6.  A reviewer step keeps the compliance flags free of duplicates, and a verdict that
  is already among the flags leaves them as they are.
\<close>

theorem compliance_flags_deduplicated:
  "(distinct (compliance_flags s) \<longrightarrow> distinct (compliance_flags (step e reviewer s))) \<and>
   (fst (reviewer_feedback e s) \<in> set (compliance_flags s) \<longrightarrow>
      compliance_flags (step e reviewer s) = compliance_flags s)"
  by (simp add: step_fields)

theorem compliance_flags_deduplicated_witness:
  "compliance_flags (run_steps (replying tone_verdict) [writer, reviewer, writer]
       (inputs (replying tone_verdict) bottle)) = [tone_verdict] \<and>
   compliance_flags (run_steps (replying tone_verdict) [writer, reviewer, writer, reviewer]
       (inputs (replying tone_verdict) bottle)) = [tone_verdict]"
proof -
  let ?e = "replying tone_verdict"
  let ?s = "run_steps ?e [writer, reviewer, writer] (inputs ?e bottle)"
  have flags: "compliance_flags ?s = [tone_verdict]"
    by (simp add: run_steps_def step_fields inputs_fields reviewer_feedback_replying
        py_strip_tone_verdict tone_verdict_not_approved)
  have h1: "distinct (compliance_flags ?s)"
    by (simp add: flags)
  have h2: "fst (reviewer_feedback ?e ?s) \<in> set (compliance_flags ?s)"
    by (simp add: flags reviewer_feedback_replying py_strip_tone_verdict)
  from compliance_flags_deduplicated [of ?s ?e] h1 h2
  have "compliance_flags (step ?e reviewer ?s) = compliance_flags ?s" by blast
  with flags show ?thesis
    by (simp add: run_steps_def)
qed

text \<open>
  In every run the flags stay free of duplicates: this holds for the state after any
  sequence of super-steps from the initial state.
\<close>

lemma run_compliance_flags_distinct:
  "distinct (compliance_flags (run_steps e ns (inputs e brief)))"
proof -
  have "distinct (compliance_flags s) \<Longrightarrow> distinct (compliance_flags (run_steps e ns s))" for s
  proof (induction ns arbitrary: s)
    case Nil
    then show ?case by (simp add: run_steps_def)
  next
    case (Cons n ns)
    have "distinct (compliance_flags (step e n s))"
      using Cons.prems by (cases n) (simp_all add: step_fields step_idle)
    from Cons.IH [OF this] show ?case by (simp add: run_steps_def)
  qed
  then show ?thesis by (simp add: inputs_fields)
qed

text \<open>
  C7.  The rule-based reviewer gives one verdict by the first matching rule: the first
  banned phrase found in the lower-cased draft, else the tone rule, else the length rule
  for drafts of more than 280 characters, else the approval marker.
\<close>

theorem fallback_review_first_match:
  "fallback_review draft =
     (case find (\<lambda>phrase. py_in phrase (py_lower draft)) banned_phrases of
        Some phrase \<Rightarrow> claim_issue phrase
      | None \<Rightarrow>
          if list_ex (\<lambda>word. py_in word (py_lower draft)) negative_words
          then ascii ''[TONE] Avoid negative language''
          else if length draft > 280
          then ascii ''[CLARITY] Keep under 280 characters for social media''
          else APPROVED)"
  by (simp add: fallback_review_def fallback_issues_def Let_def split: option.splits)

theorem fallback_review_first_match_witness:
  "fallback_review (ascii ''Never toxic!'') = claim_issue (ascii ''never'')"
proof -
  have "find (\<lambda>phrase. py_in phrase (py_lower (ascii ''Never toxic!''))) banned_phrases
      = Some (ascii ''never'')"
    by (simp add: banned_phrases_def string_defs)
  with fallback_review_first_match [of "ascii ''Never toxic!''"] show ?thesis by simp
qed

text \<open>
  The lower-casing reaches the banned phrases through the Kelvin sign as well: a draft
  that spells \<open>always works\<close> with the code point 8490 for the \<open>k\<close> is rejected.
\<close>

lemma fallback_review_kelvin_sign:
  "fallback_review (ascii ''It always wor'' @ [8490] @ ascii ''s'')
     = claim_issue (ascii ''always works'')"
  by (simp add: review_defs string_defs Let_def)

text \<open>
  C9.  The writer adds one to \<open>retries\<close> and the other nodes leave it alone; the writer
  and the art director add one to \<open>current_iteration\<close> and the reviewer leaves it alone;
  the reviewer appends exactly its verdict to \<open>review_feedback\<close> and the other nodes
  leave the history alone.  Hence no step of any node lowers a counter or changes an
  earlier entry.
\<close>

theorem counters_monotonic_feedback_append_only:
  "retries (step e writer s) = retries s + 1 \<and>
   retries (step e reviewer s) = retries s \<and>
   retries (step e art_director s) = retries s \<and>
   current_iteration (step e writer s) = current_iteration s + 1 \<and>
   current_iteration (step e reviewer s) = current_iteration s \<and>
   current_iteration (step e art_director s) = current_iteration s + 1 \<and>
   review_feedback (step e writer s) = review_feedback s \<and>
   review_feedback (step e reviewer s) = review_feedback s @ [fst (reviewer_feedback e s)] \<and>
   review_feedback (step e art_director s) = review_feedback s \<and>
   retries s \<le> retries (step e n s) \<and>
   current_iteration s \<le> current_iteration (step e n s) \<and>
   take (length (review_feedback s)) (review_feedback (step e n s)) = review_feedback s"
  by (cases n) (simp_all add: step_fields step_idle)

text \<open>
  C10.  What the art director asks of the image service, and with it the image reference
  it returns, is a function of the brief alone: for every image service, two states with
  the same \<open>user_prompt\<close> give the same prompt, the same update and the same
  \<open>image_url\<close> after the step, whatever their drafts, approved texts and feedback
  histories are.  The approved copy does not reach the image request.
\<close>

theorem image_request_depends_on_brief_only:
  "user_prompt s1 = user_prompt s2 \<Longrightarrow>
     u_image_url (art_director_node e s1) = u_image_url (art_director_node e s2) \<and>
     image_url (step e art_director s1) = image_url (step e art_director s2) \<and>
     image_prompt s1 = image_prompt s2"
  by (simp add: art_director_node_def no_update_def image_prompt_def step_fields Let_def)

text \<open>
  The witness takes the image client that repeats its prompt in the file name, on the
  initial state and on the state after a draft and an approving review.
\<close>

theorem image_request_depends_on_brief_only_witness:
  "draft_text (run_steps echoing [writer, reviewer] (inputs echoing bottle))
     \<noteq> draft_text (inputs echoing bottle) \<and>
   final_approved_text (run_steps echoing [writer, reviewer] (inputs echoing bottle))
     \<noteq> final_approved_text (inputs echoing bottle) \<and>
   review_feedback (run_steps echoing [writer, reviewer] (inputs echoing bottle))
     \<noteq> review_feedback (inputs echoing bottle) \<and>
   u_image_url (art_director_node echoing
       (run_steps echoing [writer, reviewer] (inputs echoing bottle)))
     = Some (ascii ''Generated: '' @ ascii ''campaign_output_''
         @ image_prompt (inputs echoing bottle) @ ascii ''.png'')"
proof -
  let ?s = "run_steps echoing [writer, reviewer] (inputs echoing bottle)"
  have h: "user_prompt ?s = user_prompt (inputs echoing bottle)"
    by (simp add: run_steps_def step_fields)
  have "draft_text ?s \<noteq> draft_text (inputs echoing bottle)"
    by (simp add: run_steps_def step_fields inputs_fields writer_draft_fallback
        fallback_draft_def)
  moreover have "final_approved_text ?s \<noteq> final_approved_text (inputs echoing bottle)"
    by (simp add: run_steps_def step_fields inputs_fields writer_draft_fallback
        reviewer_feedback_fallback fallback_review_bottle)
       (simp add: string_defs)
  moreover have "review_feedback ?s \<noteq> review_feedback (inputs echoing bottle)"
    by (simp add: run_steps_def step_fields inputs_fields)
  moreover have "u_image_url (art_director_node echoing ?s)
      = u_image_url (art_director_node echoing (inputs echoing bottle))"
    using image_request_depends_on_brief_only [OF h] by blast
  ultimately show ?thesis
    by (simp only: art_director_echoing) simp
qed

section \<open>The result of the run\<close>

text \<open>
  The shape of the result.  For every limit on the super-steps, the run either ends in
  an exception of the stream and then returns no result, or returns a dictionary with
  exactly the eight keys of the result record, in the same order whichever fallbacks
  were taken.
\<close>

lemma result_or_failure:
  "(case stream e limit START (inputs e brief) of
      Inl err \<Rightarrow> run_with_limit limit e brief = None
    | Inr events \<Rightarrow>
        (\<exists>result. run_with_limit limit e brief = Some result \<and>
           map fst result =
             [''final_approved_text'', ''image_url'', ''retries'', ''review_feedback'',
              ''compliance_flags'', ''execution_time'', ''agent_log'', ''is_approved'']))"
proof (cases "stream e limit START (inputs e brief)")
  case (Inl err)
  then show ?thesis by (simp add: run_with_limit_def)
next
  case (Inr events)
  have "events \<noteq> []"
  proof (cases limit)
    case 0
    with Inr show ?thesis by simp
  next
    case (Suc fuel)
    with Inr have w: "stream e fuel writer (inputs e brief) = Inr events"
      by (simp add: stream_START del: stream.simps)
    show ?thesis
    proof (cases fuel)
      case 0
      with w show ?thesis by simp
    next
      case (Suc fuel')
      with w show ?thesis
        by (auto simp add: stream_writer simp del: stream.simps split: sum.splits)
    qed
  qed
  with Inr show ?thesis
    by (simp add: run_with_limit_def summary_def Let_def)
qed

text \<open>
  Both cases occur.  With the limit 10 of the entry point a result is always returned;
  with a limit of three super-steps and a reviewer that rejects, the stream raises and
  the run returns no result.
\<close>

lemma run_campaign_generator_returns_result:
  "\<exists>result. run_campaign_generator e brief = Some result \<and>
     map fst result =
       [''final_approved_text'', ''image_url'', ''retries'', ''review_feedback'',
        ''compliance_flags'', ''execution_time'', ''agent_log'', ''is_approved'']"
proof -
  obtain s where "run_campaign_generator e brief = Some (summary e (art_director_node e s))"
    using run_campaign_generator_result by blast
  then show ?thesis
    by (simp add: summary_art_director)
qed

lemma step_ceiling_exceeded_gives_no_result:
  "stream (replying tone_verdict) 3 START (inputs (replying tone_verdict) bottle)
     = Inl GraphRecursionError \<and>
   run_with_limit 3 (replying tone_verdict) bottle = None"
proof -
  let ?e = "replying tone_verdict"
  let ?s1 = "step ?e writer (inputs ?e bottle)"
  have "\<not> 3 < retries (step ?e reviewer ?s1)"
    by (simp add: step_fields inputs_fields)
  then have revise: "router_function (step ?e reviewer ?s1) = ''revise_draft''"
    by (rule router_function_revise)
       (simp add: step_fields reviewer_feedback_replying py_strip_tone_verdict
          tone_verdict_not_approved)
  have limit: "(3::nat) = Suc (Suc (Suc 0))"
    by simp
  have "stream ?e 3 START (inputs ?e bottle) = Inl GraphRecursionError"
    unfolding limit stream_START stream_writer stream_reviewer_revise [OF revise]
    by simp
  then show ?thesis
    by (simp add: run_with_limit_def)
qed

text \<open>
  The values of the result.  They are read from the last event of the stream alone
  (\<^verbatim>\<open>final_state[last_node_key]\<close>), and that event is the update returned by the art
  director, which holds the image, the iteration and the log.  So for every environment
  and every brief the approved text, the attempt count, the feedback history, the
  compliance flags and the approval flag of the result are the defaults of \<^verbatim>\<open>.get\<close>.
\<close>

lemma result_values_are_defaults:
  "\<exists>result. run_campaign_generator e brief = Some result \<and>
     map_of result ''final_approved_text'' = Some (PStr (ascii ''N/A'')) \<and>
     map_of result ''retries'' = Some (PInt 0) \<and>
     map_of result ''review_feedback'' = Some (PStrList []) \<and>
     map_of result ''compliance_flags'' = Some (PStrList []) \<and>
     map_of result ''is_approved'' = Some (PBool False)"
proof -
  obtain s where "run_campaign_generator e brief = Some (summary e (art_director_node e s))"
    using run_campaign_generator_result by blast
  then show ?thesis
    by (simp add: summary_art_director)
qed

lemma stream_offline_bottle:
  "stream offline recursion_limit START (inputs offline bottle) =
     Inr [(writer, writer_node offline (inputs offline bottle)),
          (reviewer, reviewer_node offline (step offline writer (inputs offline bottle))),
          (art_director, art_director_node offline
             (step offline reviewer (step offline writer (inputs offline bottle))))]"
proof -
  let ?s1 = "step offline writer (inputs offline bottle)"
  have verdict: "fst (reviewer_feedback offline ?s1) = APPROVED"
    by (simp add: step_fields inputs_fields writer_draft_fallback reviewer_feedback_fallback
        fallback_review_bottle)
  have proceed: "router_function (step offline reviewer ?s1) = ''generate_image''"
    by (rule router_function_approved)
       (simp_all add: step_fields verdict, simp_all add: string_defs)
  have limit: "recursion_limit = Suc (Suc (Suc (Suc 6)))"
    by (simp add: recursion_limit_def)
  show ?thesis
    unfolding limit stream_START stream_writer stream_reviewer_proceed [OF proceed]
    by simp
qed

text \<open>
  C8.  The claim asks for a complete, finalized result record.  The code does not give
  one: with no service configured and the brief \<open>bamboo water bottle\<close> the run makes one
  attempt, the rule-based reviewer approves the draft, and the graph ends with
  \<open>retries\<close> 1, the feedback history \<open>[APPROVED]\<close>, \<open>is_approved\<close> true and the draft as
  approved text; the returned record reports 0 attempts, an empty history, no approval
  and the approved text \<open>N/A\<close>.
\<close>

theorem summary_reads_last_update_only:
  "\<exists>events result.
     stream offline recursion_limit START (inputs offline bottle) = Inr events \<and>
     run_campaign_generator offline bottle = Some result \<and>
     map fst events = [writer, reviewer, art_director] \<and>
     retries (replay (inputs offline bottle) events) = 1 \<and>
     map_of result ''retries'' = Some (PInt 0) \<and>
     review_feedback (replay (inputs offline bottle) events) = [APPROVED] \<and>
     map_of result ''review_feedback'' = Some (PStrList []) \<and>
     is_approved (replay (inputs offline bottle) events) \<and>
     map_of result ''is_approved'' = Some (PBool False) \<and>
     final_approved_text (replay (inputs offline bottle) events)
       = Some (fallback_draft (inputs offline bottle)) \<and>
     map_of result ''final_approved_text'' = Some (PStr (ascii ''N/A''))"
proof -
  let ?s0 = "inputs offline bottle"
  let ?s1 = "step offline writer ?s0"
  let ?s2 = "step offline reviewer ?s1"
  let ?events = "[(writer, writer_node offline ?s0), (reviewer, reviewer_node offline ?s1),
      (art_director, art_director_node offline ?s2)]"
  have verdict: "fst (reviewer_feedback offline ?s1) = APPROVED"
    by (simp add: step_fields inputs_fields writer_draft_fallback reviewer_feedback_fallback
        fallback_review_bottle)
  have approved: "py_in APPROVED (py_upper APPROVED)"
    by (simp add: string_defs)
  have final: "replay ?s0 ?events = step offline art_director ?s2"
    by (simp add: replay_def step_def)
  have result: "run_campaign_generator offline bottle
      = Some (summary offline (art_director_node offline ?s2))"
    by (simp add: run_campaign_generator_def run_with_limit_def stream_offline_bottle)
  have "retries (replay ?s0 ?events) = 1"
    unfolding final by (simp add: step_fields inputs_fields)
  moreover have "review_feedback (replay ?s0 ?events) = [APPROVED]"
    unfolding final by (simp add: step_fields inputs_fields verdict)
  moreover have "is_approved (replay ?s0 ?events)"
    unfolding final by (simp add: step_fields verdict approved)
  moreover have "final_approved_text (replay ?s0 ?events) = Some (fallback_draft ?s0)"
    unfolding final by (simp add: step_fields verdict approved writer_draft_fallback)
  ultimately show ?thesis
    using stream_offline_bottle result by (simp add: summary_art_director)
qed


end
